theory Spec2Isabelle
  imports Complex_Main
begin

section \<open>Data model (reviews/models.py)\<close>

text \<open>
  The role constants of \<^verbatim>\<open>reviews/models.py\<close>. A role is stored as a character
  field, so it is a string here as well.
\<close>

definition USER_ROLE_USER :: string where
  "USER_ROLE_USER = ''user''"

definition USER_ROLE_MODERATOR :: string where
  "USER_ROLE_MODERATOR = ''moderator''"

definition USER_ROLE_ADMIN :: string where
  "USER_ROLE_ADMIN = ''admin''"


text \<open>
  \<^verbatim>\<open>CustomUser\<close>: the fields the model declares, the primary key and the
  superuser flag inherited from \<^verbatim>\<open>AbstractUser\<close>.
\<close>

record custom_user =
  user_id :: nat
  username :: string
  email :: string
  role :: string
  bio :: string
  first_name :: string
  last_name :: string
  confirmation_code :: string
  is_superuser :: bool

text \<open>
  \<^verbatim>\<open>Review\<close>: the foreign keys hold the primary key of the author and of the
  title; \<^verbatim>\<open>pub_date\<close> is set by the store and no operation below reads it.
\<close>

record review =
  review_id :: nat
  review_author :: nat
  review_text :: string
  review_title :: nat
  score :: int

record title =
  title_id :: nat
  title_name :: string
  year :: int

text \<open>
  \<^verbatim>\<open>request.user\<close> is either Django's \<^verbatim>\<open>AnonymousUser\<close> or a stored
  \<^verbatim>\<open>CustomUser\<close>. The anonymous user has \<^verbatim>\<open>is_authenticated = False\<close>,
  \<^verbatim>\<open>is_superuser = False\<close> and no attribute \<^verbatim>\<open>role\<close>.
\<close>

datatype request_user = AnonymousUser | User custom_user

record request =
  req_method :: string
  req_user :: request_user

text \<open>
  The stores and the outgoing mail, as one state that every operation takes and returns.
\<close>

record mail =
  subject :: string
  message :: string
  from_email :: string
  recipient_list :: "string list"

record state =
  users :: "custom_user list"
  titles :: "title list"
  reviews :: "review list"
  outbox :: "mail list"

text \<open>
  Exceptions of the program, as values. A validation error carries its detail: the
  messages of one field, or the failing fields with their messages. The messages of the
  repository are Russian in the source and are given in English here.
\<close>

datatype error_detail = Msgs "string list" | Fields "(string \<times> string list) list"

datatype error =
    ValidationError error_detail
  | Http404
  | DoesNotExist
  | MultipleObjectsReturned
  | IntegrityError
  | AttributeError

text \<open>
  What the program takes from outside this repository: two validators of Django, the
  name-based UUID of Python's \<^verbatim>\<open>uuid\<close> module, the token factory of
  \<^verbatim>\<open>rest_framework_simplejwt\<close> and a constant of \<^verbatim>\<open>api_yamdb.settings\<close>.
\<close>

record env =
  username_validator :: "string \<Rightarrow> bool"
  email_validator :: "string \<Rightarrow> bool"
  uuid3_NAMESPACE_DNS :: "string \<Rightarrow> string"
  access_token_for_user :: "custom_user \<Rightarrow> string"
  EMAIL_HOST_USER :: string

datatype response = Response nat "(string \<times> string) list"

section \<open>Permissions (api/permissions.py)\<close>

definition SAFE_METHODS :: "string list" where
  "SAFE_METHODS = [''GET'', ''HEAD'', ''OPTIONS'']"

fun is_authenticated :: "request_user \<Rightarrow> bool" where
  "is_authenticated AnonymousUser = False"
| "is_authenticated (User u) = True"

text \<open>
  Attribute reads on \<^verbatim>\<open>request.user\<close>. Reading \<^verbatim>\<open>role\<close> from the anonymous
  user raises \<^verbatim>\<open>AttributeError\<close>.
\<close>

fun user_role :: "request_user \<Rightarrow> error + string" where
  "user_role AnonymousUser = Inl AttributeError"
| "user_role (User u) = Inr (role u)"

fun user_is_superuser :: "request_user \<Rightarrow> bool" where
  "user_is_superuser AnonymousUser = False"
| "user_is_superuser (User u) = is_superuser u"

text \<open>
  \<^verbatim>\<open>obj.author == request.user\<close>: Django compares model instances by primary
  key; a model instance never equals the anonymous user.
\<close>

fun author_is :: "nat \<Rightarrow> request_user \<Rightarrow> bool" where
  "author_is a AnonymousUser = False"
| "author_is a (User u) = (a = user_id u)"

datatype permission =
    IsAdmin
  | IsOwnerAdminModeratorOrReadOnly
  | IsAdminOrReadOnly
  | IsAuthenticated
  | AllowAny

text \<open>
  \<^verbatim>\<open>has_permission\<close>. Python's \<^verbatim>\<open>and\<close>/\<^verbatim>\<open>or\<close> evaluate from the left and
  stop early, so \<^verbatim>\<open>role\<close> is read only from an authenticated user.
\<close>

fun has_permission :: "permission \<Rightarrow> request \<Rightarrow> error + bool" where
  "has_permission IsAdmin r =
     (if is_authenticated (req_user r)
      then (case user_role (req_user r) of
              Inl e \<Rightarrow> Inl e
            | Inr ro \<Rightarrow> Inr (ro = USER_ROLE_ADMIN \<or> user_is_superuser (req_user r)))
      else Inr False)"
| "has_permission IsOwnerAdminModeratorOrReadOnly r =
     Inr (req_method r \<in> set SAFE_METHODS \<or> is_authenticated (req_user r))"
| "has_permission IsAdminOrReadOnly r =
     (if req_method r \<in> set SAFE_METHODS then Inr True
      else if is_authenticated (req_user r)
      then (if user_is_superuser (req_user r) then Inr True
            else (case user_role (req_user r) of
                    Inl e \<Rightarrow> Inl e
                  | Inr ro \<Rightarrow> Inr (ro = USER_ROLE_ADMIN)))
      else Inr False)"
| "has_permission IsAuthenticated r = Inr (is_authenticated (req_user r))"
| "has_permission AllowAny r = Inr True"

text \<open>
  \<^verbatim>\<open>has_object_permission\<close>; the second argument is \<^verbatim>\<open>obj.author\<close>. A class
  that does not override it inherits \<^verbatim>\<open>BasePermission\<close>'s, which returns True.
\<close>

fun has_object_permission :: "permission \<Rightarrow> request \<Rightarrow> nat \<Rightarrow> error + bool" where
  "has_object_permission IsOwnerAdminModeratorOrReadOnly r obj_author =
     (if req_method r \<in> set SAFE_METHODS then Inr True
      else if author_is obj_author (req_user r) then Inr True
      else (case user_role (req_user r) of
              Inl e \<Rightarrow> Inl e
            | Inr ro \<Rightarrow> Inr (ro \<in> set [USER_ROLE_MODERATOR, USER_ROLE_ADMIN])))"
| "has_object_permission p r obj_author = Inr True"

section \<open>View sets and their access policy (api/views.py)\<close>

datatype viewset =
    CategoryViewSet
  | GenreViewSet
  | TitleViewSet
  | ReviewViewSet
  | CommentViewSet

fun permission_classes :: "viewset \<Rightarrow> permission list" where
  "permission_classes CategoryViewSet = [IsAdminOrReadOnly]"
| "permission_classes GenreViewSet = [IsAdminOrReadOnly]"
| "permission_classes TitleViewSet = [IsAdminOrReadOnly]"
| "permission_classes ReviewViewSet = [IsOwnerAdminModeratorOrReadOnly]"
| "permission_classes CommentViewSet = [IsOwnerAdminModeratorOrReadOnly]"

text \<open>
  The actions of a view set and the HTTP method the router binds to each. The detail
  actions fetch the object and check the object permission as well.
\<close>

datatype action = List | Retrieve | Create | Update | PartialUpdate | Destroy

fun action_method :: "action \<Rightarrow> string" where
  "action_method List = ''GET''"
| "action_method Retrieve = ''GET''"
| "action_method Create = ''POST''"
| "action_method Update = ''PUT''"
| "action_method PartialUpdate = ''PATCH''"
| "action_method Destroy = ''DELETE''"

fun detail :: "action \<Rightarrow> bool" where
  "detail List = False"
| "detail Create = False"
| "detail a = True"

text \<open>
  \<^verbatim>\<open>check_permissions\<close> and \<^verbatim>\<open>check_object_permissions\<close> of the framework's
  view: every class of \<^verbatim>\<open>permission_classes\<close> is asked in turn, the first refusal
  denies the request.
\<close>

fun check_permissions :: "permission list \<Rightarrow> request \<Rightarrow> error + bool" where
  "check_permissions [] r = Inr True"
| "check_permissions (p # ps) r =
     (case has_permission p r of
        Inl e \<Rightarrow> Inl e
      | Inr ok \<Rightarrow> if ok then check_permissions ps r else Inr False)"

fun check_object_permissions :: "permission list \<Rightarrow> request \<Rightarrow> nat \<Rightarrow> error + bool" where
  "check_object_permissions [] r obj_author = Inr True"
| "check_object_permissions (p # ps) r obj_author =
     (case has_object_permission p r obj_author of
        Inl e \<Rightarrow> Inl e
      | Inr ok \<Rightarrow> if ok then check_object_permissions ps r obj_author else Inr False)"

text \<open>
  The decision of the access policy for an actor, an action of a view set and, for a
  detail action, the author of the object acted on.
\<close>

definition decide :: "viewset \<Rightarrow> action \<Rightarrow> request_user \<Rightarrow> nat \<Rightarrow> error + bool" where
  "decide v a actor obj_author =
     (let r = \<lparr>req_method = action_method a, req_user = actor\<rparr> in
      case check_permissions (permission_classes v) r of
        Inl e \<Rightarrow> Inl e
      | Inr ok \<Rightarrow>
          if \<not> ok then Inr False
          else if detail a then check_object_permissions (permission_classes v) r obj_author
          else Inr True)"

text \<open>
  What a view set answers to a read once the policy has let the request through:
  \<^verbatim>\<open>CategoryViewSet\<close> and \<^verbatim>\<open>GenreViewSet\<close> are built from the list, create and
  destroy mixins only, and \<^verbatim>\<open>GenreViewSet.retrieve\<close> answers 405.
\<close>

fun read_status :: "viewset \<Rightarrow> action \<Rightarrow> nat" where
  "read_status GenreViewSet Retrieve = 405"
| "read_status CategoryViewSet Retrieve = 405"
| "read_status v a = 200"

text \<open>
  A read is let through when the permission classes grant it and the view set answers
  it with 200.
\<close>

definition read_allowed :: "viewset \<Rightarrow> action \<Rightarrow> request_user \<Rightarrow> nat \<Rightarrow> bool" where
  "read_allowed v a actor obj_author \<longleftrightarrow>
     decide v a actor obj_author = Inr True \<and> read_status v a = 200"

section \<open>Queries of the object-relational mapper\<close>

text \<open>
  \<^verbatim>\<open>QuerySet.get\<close> raises \<^verbatim>\<open>DoesNotExist\<close> when no row matches and
  \<^verbatim>\<open>MultipleObjectsReturned\<close> when several do; \<^verbatim>\<open>get_object_or_404\<close> turns the
  former, and only the former, into \<^verbatim>\<open>Http404\<close>.
\<close>

definition objects_get :: "'a list \<Rightarrow> ('a \<Rightarrow> bool) \<Rightarrow> error + 'a" where
  "objects_get rows p =
     (case filter p rows of
        [] \<Rightarrow> Inl DoesNotExist
      | [x] \<Rightarrow> Inr x
      | _ \<Rightarrow> Inl MultipleObjectsReturned)"

definition get_object_or_404 :: "'a list \<Rightarrow> ('a \<Rightarrow> bool) \<Rightarrow> error + 'a" where
  "get_object_or_404 rows p =
     (case objects_get rows p of
        Inl e \<Rightarrow> (if e = DoesNotExist then Inl Http404 else Inl e)
      | Inr x \<Rightarrow> Inr x)"

text \<open>The next primary key of a table: one more than the largest in use.\<close>

definition next_pk :: "nat list \<Rightarrow> nat" where
  "next_pk pks = Suc (fold max pks 0)"

section \<open>Rating (api/serializers.py, TitleReadSerializer)\<close>




section \<open>Review serializer (api/serializers.py, ReviewSerializer)\<close>

definition validate_score :: "int \<Rightarrow> error + int" where
  "validate_score v =
     (if \<not> (1 \<le> v \<and> v \<le> 10)
      then Inl (ValidationError (Msgs [''The score can be from 1 to 10!'']))
      else Inr v)"

text \<open>
  \<^verbatim>\<open>validate_title\<close>: the pre-check for a second review; \<^verbatim>\<open>u\<close> is
  \<^verbatim>\<open>request.user\<close> and \<^verbatim>\<open>t\<close> the title the hidden field resolved.
\<close>

definition validate_title :: "state \<Rightarrow> custom_user \<Rightarrow> title \<Rightarrow> error + title" where
  "validate_title st u t =
     (if filter (\<lambda>r. review_author r = user_id u \<and> review_title r = title_id t) (reviews st) \<noteq> []
      then Inl (ValidationError (Msgs [''You cannot add a second review of the same title!'']))
      else Inr t)"

text \<open>
  The \<^verbatim>\<open>UniqueTogetherValidator\<close> of \<^verbatim>\<open>Meta.validators\<close> over the fields
  \<^verbatim>\<open>author\<close> and \<^verbatim>\<open>title\<close>; on an update the instance itself is excluded.
\<close>

definition unique_together :: "state \<Rightarrow> nat option \<Rightarrow> nat \<Rightarrow> nat \<Rightarrow> error + unit" where
  "unique_together st instance a t =
     (if filter (\<lambda>r. review_author r = a \<and> review_title r = t \<and> Some (review_id r) \<noteq> instance)
           (reviews st) \<noteq> []
      then Inl (ValidationError (Fields
             [(''non_field_errors'', [''The fields author, title must make a unique set.''])]))
      else Inr ())"

text \<open>
  \<^verbatim>\<open>Review.objects.create\<close>: the insert is refused by the constraint
  \<^verbatim>\<open>unique_title\<close> of \<^verbatim>\<open>Review.Meta.constraints\<close> on the pair (title, author).
\<close>

definition Review_objects_create ::
    "state \<Rightarrow> nat \<Rightarrow> nat \<Rightarrow> string \<Rightarrow> int \<Rightarrow> error + state \<times> review" where
  "Review_objects_create st a t txt sc =
     (if list_ex (\<lambda>r. review_title r = t \<and> review_author r = a) (reviews st)
      then Inl IntegrityError
      else (let r = \<lparr>review_id = next_pk (map review_id (reviews st)), review_author = a,
                       review_text = txt, review_title = t, score = sc\<rparr>
            in Inr (st\<lparr>reviews := reviews st @ [r]\<rparr>, r)))"

text \<open>
  The parsed payload of a review: a field is \<^verbatim>\<open>None\<close> when the request does not
  carry it.
\<close>

record review_data =
  data_text :: "string option"
  data_score :: "int option"

text \<open>
  Field validation of the serializer for a creation: the writable fields in the order of
  \<^verbatim>\<open>Meta.fields\<close> (text, score, title), each followed by its
  \<^verbatim>\<open>validate_<field>\<close> method; the errors are collected by field. The hidden
  field \<^verbatim>\<open>title\<close> takes its value from \<^verbatim>\<open>CurrentTitleDefault\<close>, whose
  \<^verbatim>\<open>Http404\<close> is not a validation error and leaves the serializer at once.
\<close>

definition text_errors :: "bool \<Rightarrow> string option \<Rightarrow> (string \<times> string list) list" where
  "text_errors partial v =
     (case v of
        None \<Rightarrow> if partial then [] else [(''text'', [''This field is required.''])]
      | Some s \<Rightarrow> if s = [] then [(''text'', [''This field may not be blank.''])] else [])"

definition score_errors :: "bool \<Rightarrow> int option \<Rightarrow> (string \<times> string list) list" where
  "score_errors partial v =
     (case v of
        None \<Rightarrow> if partial then [] else [(''score'', [''This field is required.''])]
      | Some n \<Rightarrow>
          (case validate_score n of
             Inl (ValidationError (Msgs ms)) \<Rightarrow> [(''score'', ms)]
           | _ \<Rightarrow> []))"

definition title_errors :: "state \<Rightarrow> custom_user \<Rightarrow> title \<Rightarrow> (string \<times> string list) list" where
  "title_errors st u t =
     (case validate_title st u t of
        Inl (ValidationError (Msgs ms)) \<Rightarrow> [(''title'', ms)]
      | _ \<Rightarrow> [])"

definition CurrentTitleDefault :: "state \<Rightarrow> nat \<Rightarrow> error + title" where
  "CurrentTitleDefault st tid = get_object_or_404 (titles st) (\<lambda>t. title_id t = tid)"

text \<open>
  \<^verbatim>\<open>ReviewViewSet.create\<close> for an authenticated user \<^verbatim>\<open>u\<close> and the title
  \<^verbatim>\<open>tid\<close> of the URL: \<^verbatim>\<open>is_valid\<close> (fields, then the validators of
  \<^verbatim>\<open>Meta\<close>), then \<^verbatim>\<open>perform_create\<close>. An error leaves the state as it was.
\<close>

definition ReviewViewSet_create ::
    "state \<Rightarrow> custom_user \<Rightarrow> nat \<Rightarrow> review_data \<Rightarrow> error + state \<times> review" where
  "ReviewViewSet_create st u tid d =
     (case CurrentTitleDefault st tid of
        Inl e \<Rightarrow> Inl e
      | Inr t \<Rightarrow>
          (let errs = text_errors False (data_text d) @ score_errors False (data_score d)
                      @ title_errors st u t
           in case (errs, data_text d, data_score d) of
                ([], Some txt, Some sc) \<Rightarrow>
                  (case unique_together st None (user_id u) (title_id t) of
                     Inl e \<Rightarrow> Inl e
                   | Inr _ \<Rightarrow>
                       (case get_object_or_404 (titles st) (\<lambda>t. title_id t = tid) of
                          Inl e \<Rightarrow> Inl e
                        | Inr t' \<Rightarrow>
                            Review_objects_create st (user_id u) (title_id t') txt sc))
              | _ \<Rightarrow> Inl (ValidationError (Fields errs))))"


section \<open>Confirmation code (api/utils.py)\<close>

definition send_mail :: "state \<Rightarrow> string \<Rightarrow> string \<Rightarrow> string \<Rightarrow> string list \<Rightarrow> state" where
  "send_mail st subj msg sender recipients =
     st\<lparr>outbox := outbox st @ [\<lparr>subject = subj, message = msg, from_email = sender,
                                   recipient_list = recipients\<rparr>]\<rparr>"

text \<open>\<^verbatim>\<open>Model.save\<close> of a stored user: the row with its primary key is replaced.\<close>

definition user_save :: "state \<Rightarrow> custom_user \<Rightarrow> state" where
  "user_save st u =
     st\<lparr>users := map (\<lambda>x. if user_id x = user_id u then u else x) (users st)\<rparr>"

definition generate_and_send_confirmation_code_to_email ::
    "env \<Rightarrow> state \<Rightarrow> string \<Rightarrow> error + state" where
  "generate_and_send_confirmation_code_to_email ev st uname =
     (case get_object_or_404 (users st) (\<lambda>x. username x = uname) of
        Inl e \<Rightarrow> Inl e
      | Inr user \<Rightarrow>
          (let code = uuid3_NAMESPACE_DNS ev uname;
               user' = user\<lparr>confirmation_code := code\<rparr>;
               st' = send_mail st ''Confirmation code to complete the registration''
                       (''Your code to get a JWT token '' @ confirmation_code user')
                       (EMAIL_HOST_USER ev) [email user']
           in Inr (user_save st' user')))"

section \<open>Registration and token (api/serializers.py, api/views.py)\<close>

record signup_data =
  data_username :: "string option"
  data_email :: "string option"

text \<open>
  The fields of \<^verbatim>\<open>EmailSerializer\<close>, built from the model: required, not blank,
  the validators and the uniqueness of the model field; \<^verbatim>\<open>validate_username\<close> runs
  on a value that passed them. On an update the instance itself is left out of the
  uniqueness check.
\<close>

definition validate_username :: "string \<Rightarrow> error + string" where
  "validate_username v =
     (if v = ''me''
      then Inl (ValidationError (Msgs [''Username: '' @ v @ '' is not available'']))
      else Inr v)"

definition username_field :: "env \<Rightarrow> state \<Rightarrow> nat option \<Rightarrow> string \<Rightarrow> string list" where
  "username_field ev st instance v =
     (if v = [] then [''This field may not be blank.'']
      else (if username_validator ev v then [] else [''Enter a valid username.''])
         @ (if length v \<le> 257 then []
            else [''Ensure this field has no more than 257 characters.''])
         @ (if list_ex (\<lambda>x. username x = v \<and> Some (user_id x) \<noteq> instance) (users st)
            then [''A user with this name is already registered''] else []))"

definition email_field :: "env \<Rightarrow> state \<Rightarrow> nat option \<Rightarrow> string \<Rightarrow> string list" where
  "email_field ev st instance v =
     (if v = [] then [''This field may not be blank.'']
      else (if email_validator ev v then [] else [''Enter a valid email address.''])
         @ (if length v \<le> 257 then []
            else [''Ensure this field has no more than 257 characters.''])
         @ (if list_ex (\<lambda>x. email x = v \<and> Some (user_id x) \<noteq> instance) (users st)
            then [''This field must be unique.''] else []))"

definition field_errors :: "string \<Rightarrow> string list \<Rightarrow> (string \<times> string list) list" where
  "field_errors name ms = (if ms = [] then [] else [(name, ms)])"

definition EmailSerializer_errors ::
    "env \<Rightarrow> state \<Rightarrow> signup_data \<Rightarrow> (string \<times> string list) list" where
  "EmailSerializer_errors ev st d =
     (case data_username d of
        None \<Rightarrow> [(''username'', [''This field is required.''])]
      | Some v \<Rightarrow>
          (case username_field ev st None v of
             [] \<Rightarrow> (case validate_username v of
                      Inl (ValidationError (Msgs ms)) \<Rightarrow> [(''username'', ms)]
                    | _ \<Rightarrow> [])
           | ms \<Rightarrow> [(''username'', ms)]))
     @ (case data_email d of
          None \<Rightarrow> [(''email'', [''This field is required.''])]
        | Some v \<Rightarrow> field_errors ''email'' (email_field ev st None v))"

text \<open>
  \<^verbatim>\<open>CustomUser.objects.create\<close> with the defaults of the model: the role
  \<^verbatim>\<open>user\<close> and blank strings, the confirmation code among them. The store refuses
  a taken username or email.
\<close>

definition CustomUser_objects_create :: "state \<Rightarrow> string \<Rightarrow> string \<Rightarrow> error + state" where
  "CustomUser_objects_create st uname mail_addr =
     (if list_ex (\<lambda>x. username x = uname \<or> email x = mail_addr) (users st)
      then Inl IntegrityError
      else Inr (st\<lparr>users := users st @
                  [\<lparr>user_id = next_pk (map user_id (users st)), username = uname,
                    email = mail_addr, role = USER_ROLE_USER, bio = [], first_name = [],
                    last_name = [], confirmation_code = [], is_superuser = False\<rparr>]\<rparr>))"

definition mail_send :: "env \<Rightarrow> state \<Rightarrow> string \<Rightarrow> custom_user \<Rightarrow> state" where
  "mail_send ev st mail_addr user =
     send_mail st ''YaMDB Confirmation Code''
       ([CHR 0x0A] @ ''                Hello!'' @ [CHR 0x0A, CHR 0x0A]
        @ ''                Your confirmation: '' @ confirmation_code user @ [CHR 0x0A]
        @ ''            '')
       (EMAIL_HOST_USER ev) [mail_addr]"

definition EmailRegistrationView_post ::
    "env \<Rightarrow> state \<Rightarrow> signup_data \<Rightarrow> error + state \<times> response" where
  "EmailRegistrationView_post ev st d =
     (case (EmailSerializer_errors ev st d, data_username d, data_email d) of
        ([], Some uname, Some mail_addr) \<Rightarrow>
          (case CustomUser_objects_create st uname mail_addr of
             Inl e \<Rightarrow> Inl e
           | Inr st1 \<Rightarrow>
               (case get_object_or_404 (users st1) (\<lambda>x. username x = uname) of
                  Inl e \<Rightarrow> Inl e
                | Inr user \<Rightarrow>
                    Inr (mail_send ev st1 mail_addr user,
                         Response 200 [(''username'', uname), (''email'', mail_addr)])))
      | (errs, _, _) \<Rightarrow> Inl (ValidationError (Fields errs)))"

record token_data =
  token_username :: "string option"
  token_confirmation_code :: "string option"

definition required_char :: "string \<Rightarrow> string option \<Rightarrow> (string \<times> string list) list" where
  "required_char name v =
     (case v of
        None \<Rightarrow> [(name, [''This field is required.''])]
      | Some s \<Rightarrow> if s = [] then [(name, [''This field may not be blank.''])] else [])"

text \<open>
  \<^verbatim>\<open>AccessTokenView.post\<close>. The \<^verbatim>\<open>except\<close> clause handles
  \<^verbatim>\<open>CustomUser.DoesNotExist\<close> and lets every other exception through.
\<close>

definition AccessTokenView_post :: "env \<Rightarrow> state \<Rightarrow> token_data \<Rightarrow> error + response" where
  "AccessTokenView_post ev st d =
     (case (required_char ''username'' (token_username d)
              @ required_char ''confirmation_code'' (token_confirmation_code d),
            token_username d, token_confirmation_code d) of
        ([], Some uname, Some code) \<Rightarrow>
          (case get_object_or_404 (users st) (\<lambda>x. username x = uname) of
             Inl e \<Rightarrow>
               (if e = DoesNotExist then Inr (Response 400 [(''email'', ''Not found'')])
                else Inl e)
           | Inr user \<Rightarrow>
               if confirmation_code user \<noteq> code
               then Inr (Response 400
                      [(''confirmation_code'', ''Invalid confirmation'' @ ''code for email '' @ email user)])
               else Inr (Response 200 [(''token'', access_token_for_user ev user)]))
      | (errs, _, _) \<Rightarrow> Inl (ValidationError (Fields errs)))"

section \<open>Own profile (api/views.py, UserViewSet.me)\<close>









section \<open>Sample data\<close>

text \<open>
  Concrete values for evaluating the operations. The validators of \<^verbatim>\<open>sample_env\<close>
  accept lower-case ASCII names and addresses with an at sign; its UUID of the name
  \<^verbatim>\<open>alice\<close> is the one Python computes.
\<close>

definition sample_env :: env where
  "sample_env =
     \<lparr>username_validator = (\<lambda>s. list_all (\<lambda>c. c \<in> set ''abcdefghijklmnopqrstuvwxyz0123456789_.@+-'') s),
      email_validator = (\<lambda>s. CHR ''@'' \<in> set s),
      uuid3_NAMESPACE_DNS = (\<lambda>s. if s = ''alice'' then ''d6d1cd4b-d15a-3b76-9f89-509754f92c74''
                                  else ''uuid3:'' @ s),
      access_token_for_user = (\<lambda>u. ''token:'' @ username u),
      EMAIL_HOST_USER = ''yamdb@example.com''\<rparr>"

definition empty_state :: state where
  "empty_state = \<lparr>users = [], titles = [], reviews = [], outbox = []\<rparr>"

definition alice :: custom_user where
  "alice = \<lparr>user_id = 1, username = ''alice'', email = ''alice@example.com'',
            role = ''user'', bio = [], first_name = [], last_name = [],
            confirmation_code = [], is_superuser = False\<rparr>"

definition bob :: custom_user where
  "bob = \<lparr>user_id = 2, username = ''bob'', email = ''bob@example.com'',
          role = ''user'', bio = [], first_name = [], last_name = [],
          confirmation_code = [], is_superuser = False\<rparr>"

definition sample_state :: state where
  "sample_state = \<lparr>users = [alice, bob],
                    titles = [\<lparr>title_id = 7, title_name = ''Metropolis'', year = 1927\<rparr>],
                    reviews = [], outbox = []\<rparr>"

definition signup_alice :: signup_data where
  "signup_alice = \<lparr>data_username = Some ''alice'', data_email = Some ''alice@example.com''\<rparr>"

definition registered_state :: state where
  "registered_state =
     \<lparr>users = [alice], titles = [], reviews = [],
      outbox = [\<lparr>subject = ''YaMDB Confirmation Code'',
                 message = [CHR 0x0A] @ ''                Hello!'' @ [CHR 0x0A, CHR 0x0A]
                   @ ''                Your confirmation: '' @ [CHR 0x0A] @ ''            '',
                 from_email = ''yamdb@example.com'',
                 recipient_list = [''alice@example.com'']\<rparr>]\<rparr>"


definition review_payload :: review_data where
  "review_payload = \<lparr>data_text = Some ''good'', data_score = Some 10\<rparr>"

definition alice_review :: review where
  "alice_review = \<lparr>review_id = 1, review_author = 1, review_text = ''good'',
                    review_title = 7, score = 10\<rparr>"

definition reviewed_state :: state where
  "reviewed_state = sample_state\<lparr>reviews := [alice_review]\<rparr>"


definition token_request :: token_data where
  "token_request = \<lparr>token_username = Some ''carol'', token_confirmation_code = Some ''x''\<rparr>"

definition code_mail :: mail where
  "code_mail =
     \<lparr>subject = ''Confirmation code to complete the registration'',
      message = ''Your code to get a JWT token d6d1cd4b-d15a-3b76-9f89-509754f92c74'',
      from_email = ''yamdb@example.com'', recipient_list = [''alice@example.com'']\<rparr>"

definition coded_state :: state where
  "coded_state =
     registered_state
       \<lparr>users := [alice\<lparr>confirmation_code := ''d6d1cd4b-d15a-3b76-9f89-509754f92c74''\<rparr>],
        outbox := outbox registered_state @ [code_mail]\<rparr>"

section \<open>Queries: lemmas\<close>

lemma get_object_or_404_not_DoesNotExist: "get_object_or_404 rows p \<noteq> Inl DoesNotExist"
  by (simp add: get_object_or_404_def split: sum.splits)

lemma objects_get_none: "\<not> list_ex p rows \<Longrightarrow> objects_get rows p = Inl DoesNotExist"
  by (simp add: objects_get_def list_ex_iff filter_empty_conv)

lemma get_object_or_404_none:
  "\<not> list_ex p rows \<Longrightarrow> get_object_or_404 rows p = Inl Http404"
  by (simp add: get_object_or_404_def objects_get_none)

lemma get_object_or_404_Inr:
  "get_object_or_404 rows p = Inr x \<Longrightarrow> p x \<and> x \<in> set rows \<and> filter p rows = [x]"
proof -
  assume a: "get_object_or_404 rows p = Inr x"
  then have f: "filter p rows = [x]"
    by (auto simp: get_object_or_404_def objects_get_def split: list.splits sum.splits if_splits)
  from filter_eq_ConsD [OF f] have "p x \<and> x \<in> set rows" by auto
  then show ?thesis using f by simp
qed

lemma get_object_or_404_single:
  "filter p rows = [x] \<Longrightarrow> get_object_or_404 rows p = Inr x"
  by (simp add: get_object_or_404_def objects_get_def)

section \<open>Rating: theorems\<close>













section \<open>Access policy: theorems\<close>

text \<open>
  C3. For every actor, the anonymous one included, the permission classes of the five
  view sets (Category, Genre, Title, Review, Comment) grant list and retrieve, whoever
  the author of the object is. A list is then served on all five, and a retrieve on
  Title, Review and Comment; a retrieve on Genre and on Category is answered 405 for
  every actor.
\<close>

theorem read_only_served:
  "decide v List actor obj_author = Inr True
   \<and> decide v Retrieve actor obj_author = Inr True
   \<and> read_status v List = 200
   \<and> read_status v Retrieve = (if v \<in> {GenreViewSet, CategoryViewSet} then 405 else 200)
   \<and> read_allowed v List actor obj_author
   \<and> (read_allowed v Retrieve actor obj_author
        \<longleftrightarrow> v \<in> {TitleViewSet, ReviewViewSet, CommentViewSet})"
  by (cases v) (simp_all add: read_allowed_def decide_def Let_def SAFE_METHODS_def)

theorem read_only_served_witness:
  "read_allowed GenreViewSet List AnonymousUser 0
   \<and> read_allowed TitleViewSet Retrieve AnonymousUser 0
   \<and> read_status CategoryViewSet Retrieve = 405
   \<and> \<not> read_allowed CategoryViewSet Retrieve (User alice) 0"
  using read_only_served [of GenreViewSet AnonymousUser 0]
    read_only_served [of TitleViewSet AnonymousUser 0]
    read_only_served [of CategoryViewSet "User alice" 0]
  by simp

theorem genre_retrieve_refused:
  "decide GenreViewSet Retrieve AnonymousUser 0 = Inr True
   \<and> read_status GenreViewSet Retrieve = 405
   \<and> \<not> read_allowed GenreViewSet Retrieve AnonymousUser 0"
  by (simp add: read_allowed_def decide_def Let_def SAFE_METHODS_def)



text \<open>
  C5. For an authenticated actor and a review, the access policy allows update, partial
  update and destroy exactly when the actor is the author of the review or has the role
  \<^verbatim>\<open>moderator\<close> or \<^verbatim>\<open>admin\<close>.
\<close>

theorem review_write_author_or_staff:
  "a \<in> {Update, PartialUpdate, Destroy} \<Longrightarrow>
   decide ReviewViewSet a (User u) (review_author rv) =
     Inr (review_author rv = user_id u
          \<or> role u = USER_ROLE_MODERATOR \<or> role u = USER_ROLE_ADMIN)"
  by (auto simp: decide_def Let_def SAFE_METHODS_def)

theorem review_write_author_or_staff_witness:
  "Destroy \<in> {Update, PartialUpdate, Destroy}
   \<and> decide ReviewViewSet Destroy (User alice) (review_author alice_review) = Inr True
   \<and> decide ReviewViewSet Destroy (User bob) (review_author alice_review) = Inr False
   \<and> decide ReviewViewSet Destroy (User (bob\<lparr>role := USER_ROLE_MODERATOR\<rparr>))
        (review_author alice_review) = Inr True
   \<and> decide ReviewViewSet Update (User (bob\<lparr>role := USER_ROLE_ADMIN\<rparr>))
        (review_author alice_review) = Inr True"
  using review_write_author_or_staff [where a = Destroy and u = alice and rv = alice_review]
    review_write_author_or_staff [where a = Destroy and u = bob and rv = alice_review]
    review_write_author_or_staff [where a = Destroy and u = "bob\<lparr>role := USER_ROLE_MODERATOR\<rparr>"
      and rv = alice_review]
    review_write_author_or_staff [where a = Update and u = "bob\<lparr>role := USER_ROLE_ADMIN\<rparr>"
      and rv = alice_review]
  by (simp add: alice_def bob_def alice_review_def USER_ROLE_ADMIN_def USER_ROLE_MODERATOR_def)

section \<open>Reviews: theorems\<close>




lemma create_errs:
  "CurrentTitleDefault st tid = Inr t \<Longrightarrow>
   text_errors False (data_text d) @ score_errors False (data_score d) @ title_errors st u t \<noteq> [] \<Longrightarrow>
   ReviewViewSet_create st u tid d =
     Inl (ValidationError (Fields
       (text_errors False (data_text d) @ score_errors False (data_score d) @ title_errors st u t)))"
  by (auto simp: ReviewViewSet_create_def Let_def split: list.splits option.splits)









lemma sample_create:
  "ReviewViewSet_create sample_state alice 7 review_payload = Inr (reviewed_state, alice_review)"
  by (simp add: ReviewViewSet_create_def CurrentTitleDefault_def Let_def text_errors_def
      score_errors_def validate_score_def title_errors_def validate_title_def unique_together_def
      Review_objects_create_def next_pk_def get_object_or_404_def objects_get_def
      review_payload_def reviewed_state_def alice_review_def sample_state_def alice_def)




lemma create_Inr:
  assumes "ReviewViewSet_create st u tid d = Inr (st', r)"
  shows "titles st' = titles st \<and> reviews st' = reviews st @ [r]
         \<and> review_author r = user_id u \<and> review_title r = tid
         \<and> (\<exists>t. CurrentTitleDefault st tid = Inr t \<and> title_id t = tid)"
proof -
  obtain t where t: "CurrentTitleDefault st tid = Inr t"
    using assms by (cases "CurrentTitleDefault st tid") (simp_all add: ReviewViewSet_create_def)
  have tt: "title_id t = tid"
    using t get_object_or_404_Inr [of "titles st" "\<lambda>t. title_id t = tid" t]
    by (simp add: CurrentTitleDefault_def)
  have g: "get_object_or_404 (titles st) (\<lambda>t. title_id t = tid) = Inr t"
    using t by (simp add: CurrentTitleDefault_def)
  obtain tx sc where c: "Review_objects_create st (user_id u) tid tx sc = Inr (st', r)"
    using assms t g tt
    by (auto simp: ReviewViewSet_create_def Let_def
        split: list.splits option.splits sum.splits)
  then have "titles st' = titles st \<and> reviews st' = reviews st @ [r]
         \<and> review_author r = user_id u \<and> review_title r = tid"
    by (auto simp: Review_objects_create_def Let_def split: if_splits)
  then show ?thesis using t tt by simp
qed

lemma duplicate_guards:
  assumes "list_ex (\<lambda>r. review_author r = user_id u \<and> review_title r = title_id t) (reviews st)"
  shows "validate_title st u t =
           Inl (ValidationError (Msgs [''You cannot add a second review of the same title!'']))"
    and "unique_together st None (user_id u) (title_id t) =
           Inl (ValidationError (Fields
             [(''non_field_errors'', [''The fields author, title must make a unique set.''])]))"
    and "Review_objects_create st (user_id u) (title_id t) tx sc = Inl IntegrityError"
proof -
  have f: "filter (\<lambda>r. review_author r = user_id u \<and> review_title r = title_id t) (reviews st) \<noteq> []"
    using assms by (simp add: list_ex_iff filter_empty_conv)
  show "validate_title st u t =
           Inl (ValidationError (Msgs [''You cannot add a second review of the same title!'']))"
    using f by (simp add: validate_title_def)
  show "unique_together st None (user_id u) (title_id t) =
           Inl (ValidationError (Fields
             [(''non_field_errors'', [''The fields author, title must make a unique set.''])]))"
    using f by (simp add: unique_together_def)
  have "list_ex (\<lambda>r. review_title r = title_id t \<and> review_author r = user_id u) (reviews st)"
    using assms by (auto simp: list_ex_iff)
  then show "Review_objects_create st (user_id u) (title_id t) tx sc = Inl IntegrityError"
    by (simp add: Review_objects_create_def)
qed

lemma duplicate_rejected:
  assumes "CurrentTitleDefault st tid = Inr t"
    and "list_ex (\<lambda>r. review_author r = user_id u \<and> review_title r = tid) (reviews st)"
  shows "(\<exists>errs. ReviewViewSet_create st u tid d = Inl (ValidationError (Fields errs))
            \<and> (''title'', [''You cannot add a second review of the same title!'']) \<in> set errs)
       \<and> validate_title st u t =
           Inl (ValidationError (Msgs [''You cannot add a second review of the same title!'']))
       \<and> unique_together st None (user_id u) tid =
           Inl (ValidationError (Fields
             [(''non_field_errors'', [''The fields author, title must make a unique set.''])]))
       \<and> Review_objects_create st (user_id u) tid tx sc = Inl IntegrityError"
proof -
  have tt: "title_id t = tid"
    using assms(1) get_object_or_404_Inr [of "titles st" "\<lambda>t. title_id t = tid" t]
    by (simp add: CurrentTitleDefault_def)
  have ex: "list_ex (\<lambda>r. review_author r = user_id u \<and> review_title r = title_id t) (reviews st)"
    using assms(2) tt by simp
  note g = duplicate_guards [OF ex]
  have te: "title_errors st u t = [(''title'', [''You cannot add a second review of the same title!''])]"
    using g(1) by (simp add: title_errors_def)
  have "ReviewViewSet_create st u tid d =
     Inl (ValidationError (Fields
       (text_errors False (data_text d) @ score_errors False (data_score d) @ title_errors st u t)))"
    using create_errs [OF assms(1), of d u] te by simp
  then have a: "\<exists>errs. ReviewViewSet_create st u tid d = Inl (ValidationError (Fields errs))
            \<and> (''title'', [''You cannot add a second review of the same title!'']) \<in> set errs"
    using te by simp
  show ?thesis using a tt g(1,2) duplicate_guards(3) [OF ex, of tx sc] by auto
qed

text \<open>
  C2. When a user has a review of a title, every creation of a review by that user for
  that title is rejected, whatever its text and score. Each of the three guards rejects
  it on its own: the pre-check \<^verbatim>\<open>validate_title\<close> of the serializer and the
  \<^verbatim>\<open>UniqueTogetherValidator\<close> of its \<^verbatim>\<open>Meta\<close> with a validation error (the
  framework's report of the conflict), the constraint of the store with an integrity
  error. A successful creation leaves the store in such a state, so the second creation
  is rejected.
\<close>

theorem second_review_rejected:
  "(CurrentTitleDefault st tid = Inr t
      \<and> list_ex (\<lambda>r. review_author r = user_id u \<and> review_title r = tid) (reviews st)
    \<longrightarrow> (\<exists>errs. ReviewViewSet_create st u tid d = Inl (ValidationError (Fields errs))
            \<and> (''title'', [''You cannot add a second review of the same title!'']) \<in> set errs)
       \<and> validate_title st u t =
           Inl (ValidationError (Msgs [''You cannot add a second review of the same title!'']))
       \<and> unique_together st None (user_id u) tid =
           Inl (ValidationError (Fields
             [(''non_field_errors'', [''The fields author, title must make a unique set.''])]))
       \<and> Review_objects_create st (user_id u) tid tx sc = Inl IntegrityError)
   \<and> (ReviewViewSet_create prev u tid dp = Inr (st, r)
    \<longrightarrow> list_ex (\<lambda>r. review_author r = user_id u \<and> review_title r = tid) (reviews st)
       \<and> (\<exists>t'. CurrentTitleDefault st tid = Inr t')
       \<and> (\<exists>errs. ReviewViewSet_create st u tid d = Inl (ValidationError (Fields errs))
            \<and> (''title'', [''You cannot add a second review of the same title!'']) \<in> set errs)
       \<and> unique_together st None (user_id u) tid =
           Inl (ValidationError (Fields
             [(''non_field_errors'', [''The fields author, title must make a unique set.''])]))
       \<and> Review_objects_create st (user_id u) tid tx sc = Inl IntegrityError)"
proof -
  have b: "list_ex (\<lambda>r. review_author r = user_id u \<and> review_title r = tid) (reviews st)
       \<and> (\<exists>t'. CurrentTitleDefault st tid = Inr t')
       \<and> (\<exists>errs. ReviewViewSet_create st u tid d = Inl (ValidationError (Fields errs))
            \<and> (''title'', [''You cannot add a second review of the same title!'']) \<in> set errs)
       \<and> unique_together st None (user_id u) tid =
           Inl (ValidationError (Fields
             [(''non_field_errors'', [''The fields author, title must make a unique set.''])]))
       \<and> Review_objects_create st (user_id u) tid tx sc = Inl IntegrityError"
    if h: "ReviewViewSet_create prev u tid dp = Inr (st, r)"
  proof -
    from create_Inr [OF h] obtain t' where
      s: "titles st = titles prev" "reviews st = reviews prev @ [r]"
         "review_author r = user_id u" "review_title r = tid"
         "CurrentTitleDefault prev tid = Inr t'"
      by blast
    have t': "CurrentTitleDefault st tid = Inr t'"
      using s(1,5) by (simp add: CurrentTitleDefault_def)
    have ex: "list_ex (\<lambda>r. review_author r = user_id u \<and> review_title r = tid) (reviews st)"
      using s by (simp add: list_ex_iff)
    show ?thesis using duplicate_rejected [OF t' ex, of d tx sc] t' ex by blast
  qed
  show ?thesis using duplicate_rejected [of st tid t u d tx sc] b by blast
qed

theorem second_review_rejected_witness:
  "ReviewViewSet_create sample_state alice 7 review_payload = Inr (reviewed_state, alice_review)
   \<and> list_ex (\<lambda>r. review_author r = user_id alice \<and> review_title r = 7) (reviews reviewed_state)
   \<and> CurrentTitleDefault reviewed_state 7 =
       Inr \<lparr>title_id = 7, title_name = ''Metropolis'', year = 1927\<rparr>
   \<and> ReviewViewSet_create reviewed_state alice 7 \<lparr>data_text = Some ''bad'', data_score = Some 1\<rparr> =
       Inl (ValidationError (Fields
         [(''title'', [''You cannot add a second review of the same title!''])]))
   \<and> validate_title reviewed_state alice \<lparr>title_id = 7, title_name = ''Metropolis'', year = 1927\<rparr> =
       Inl (ValidationError (Msgs [''You cannot add a second review of the same title!'']))
   \<and> unique_together reviewed_state None (user_id alice) 7 =
       Inl (ValidationError (Fields
         [(''non_field_errors'', [''The fields author, title must make a unique set.''])]))
   \<and> Review_objects_create reviewed_state (user_id alice) 7 ''bad'' 1 = Inl IntegrityError"
proof -
  have c: "ReviewViewSet_create reviewed_state alice 7 \<lparr>data_text = Some ''bad'', data_score = Some 1\<rparr> =
       Inl (ValidationError (Fields
         [(''title'', [''You cannot add a second review of the same title!''])]))"
    by (simp add: ReviewViewSet_create_def CurrentTitleDefault_def get_object_or_404_def
      objects_get_def Let_def text_errors_def score_errors_def
      validate_score_def title_errors_def validate_title_def
      reviewed_state_def alice_review_def sample_state_def alice_def)
  have t: "CurrentTitleDefault reviewed_state 7 =
       Inr \<lparr>title_id = 7, title_name = ''Metropolis'', year = 1927\<rparr>"
    by (simp add: CurrentTitleDefault_def get_object_or_404_def objects_get_def
      reviewed_state_def sample_state_def)
  have e: "list_ex (\<lambda>r. review_author r = user_id alice \<and> review_title r = 7) (reviews reviewed_state)"
    by (simp add: reviewed_state_def alice_review_def alice_def)
  show ?thesis
    using c t e sample_create
      second_review_rejected [where st = reviewed_state and tid = 7 and u = alice
        and t = "\<lparr>title_id = 7, title_name = ''Metropolis'', year = 1927\<rparr>"
        and d = "\<lparr>data_text = Some ''bad'', data_score = Some 1\<rparr>" and tx = "''bad''" and sc = 1
        and prev = sample_state and dp = review_payload and r = alice_review]
    by simp
qed

section \<open>Registration: theorems\<close>

lemma username_field_taken:
  assumes "list_ex (\<lambda>x. username x = uname) (users st)"
  shows "username_field ev st None uname \<noteq> []"
    and "uname \<noteq> [] \<Longrightarrow>
         ''A user with this name is already registered'' \<in> set (username_field ev st None uname)"
  using assms by (auto simp: username_field_def list_ex_iff)

lemma EmailSerializer_errors_taken:
  assumes "list_ex (\<lambda>x. username x = uname) (users st)" "data_username d = Some uname"
  shows "\<exists>rest. EmailSerializer_errors ev st d =
           (''username'', username_field ev st None uname) # rest"
  using username_field_taken(1) [OF assms(1), of ev] assms(2)
  by (cases "username_field ev st None uname") (simp_all add: EmailSerializer_errors_def)

lemma post_errors:
  "EmailSerializer_errors ev st d = e # es \<Longrightarrow>
   EmailRegistrationView_post ev st d = Inl (ValidationError (Fields (e # es)))"
  by (simp add: EmailRegistrationView_post_def)

lemma user_save_get:
  assumes "distinct (map user_id (users st))"
    and "get_object_or_404 (users st) (\<lambda>x. username x = uname) = Inr user"
    and "user_id u' = user_id user" and "username u' = uname"
  shows "get_object_or_404 (users (user_save st u')) (\<lambda>x. username x = uname) = Inr u'"
proof -
  from get_object_or_404_Inr [OF assms(2)] have
    m: "username user = uname" "user \<in> set (users st)"
       "filter (\<lambda>x. username x = uname) (users st) = [user]"
    by simp_all
  have inj: "x = user" if "x \<in> set (users st)" "user_id x = user_id user" for x
    using assms(1) m(2) that by (auto simp: distinct_map dest: inj_onD)
  have "filter (\<lambda>x. username x = uname)
          (map (\<lambda>x. if user_id x = user_id u' then u' else x) (users st))
        = map (\<lambda>x. if user_id x = user_id u' then u' else x)
            (filter (\<lambda>x. username x = uname) (users st))"
    unfolding filter_map comp_def
    by (rule arg_cong [where f = "map _"], rule filter_cong)
       (use inj m assms(3,4) in auto)
  then have "filter (\<lambda>x. username x = uname) (users (user_save st u')) = [u']"
    using m(3) assms(3) by (simp add: user_save_def)
  then show ?thesis by (rule get_object_or_404_single)
qed

lemma user_save_same:
  "user \<in> set (users st) \<Longrightarrow> distinct (map user_id (users st)) \<Longrightarrow>
   users (user_save st user) = users st"
  by (auto simp: user_save_def distinct_map dest: inj_onD intro!: map_idI)

text \<open>
  C6. A registration that names an already registered username is rejected with a
  validation error on the field \<^verbatim>\<open>username\<close>; it returns no state, so no code is
  regenerated, no record changes and nothing is sent. The helper
  \<^verbatim>\<open>generate_and_send_confirmation_code_to_email\<close>, which the registration does
  not call, run for a registered username stores the name-based UUID of the username as
  the code of that user and mails it to the user's address; the code depends on the
  username alone, so a second run stores the same code and the users are as they were.
\<close>

theorem reregistration_rejected:
  "(list_ex (\<lambda>x. username x = uname) (users st) \<and> data_username d = Some uname \<longrightarrow>
      (\<exists>errs ms. EmailRegistrationView_post ev st d = Inl (ValidationError (Fields errs))
         \<and> (''username'', ms) \<in> set errs
         \<and> (uname \<noteq> [] \<longrightarrow> ''A user with this name is already registered'' \<in> set ms)))
   \<and> (distinct (map user_id (users st))
        \<and> get_object_or_404 (users st) (\<lambda>x. username x = uname) = Inr user \<longrightarrow>
      (\<exists>st'. generate_and_send_confirmation_code_to_email ev st uname = Inr st'
         \<and> get_object_or_404 (users st') (\<lambda>x. username x = uname) =
             Inr (user\<lparr>confirmation_code := uuid3_NAMESPACE_DNS ev uname\<rparr>)
         \<and> outbox st' = outbox st @
             [\<lparr>subject = ''Confirmation code to complete the registration'',
               message = ''Your code to get a JWT token '' @ uuid3_NAMESPACE_DNS ev uname,
               from_email = EMAIL_HOST_USER ev, recipient_list = [email user]\<rparr>]
         \<and> (confirmation_code user = uuid3_NAMESPACE_DNS ev uname \<longrightarrow> users st' = users st)))"
proof -
  have a: "\<exists>errs ms. EmailRegistrationView_post ev st d = Inl (ValidationError (Fields errs))
         \<and> (''username'', ms) \<in> set errs
         \<and> (uname \<noteq> [] \<longrightarrow> ''A user with this name is already registered'' \<in> set ms)"
    if h: "list_ex (\<lambda>x. username x = uname) (users st)" "data_username d = Some uname"
  proof -
    from EmailSerializer_errors_taken [OF h, of ev] obtain rest where
      e: "EmailSerializer_errors ev st d = (''username'', username_field ev st None uname) # rest"
      by blast
    show ?thesis
      using post_errors [OF e] username_field_taken(2) [OF h(1), of ev] by auto
  qed
  have b: "\<exists>st'. generate_and_send_confirmation_code_to_email ev st uname = Inr st'
         \<and> get_object_or_404 (users st') (\<lambda>x. username x = uname) =
             Inr (user\<lparr>confirmation_code := uuid3_NAMESPACE_DNS ev uname\<rparr>)
         \<and> outbox st' = outbox st @
             [\<lparr>subject = ''Confirmation code to complete the registration'',
               message = ''Your code to get a JWT token '' @ uuid3_NAMESPACE_DNS ev uname,
               from_email = EMAIL_HOST_USER ev, recipient_list = [email user]\<rparr>]
         \<and> (confirmation_code user = uuid3_NAMESPACE_DNS ev uname \<longrightarrow> users st' = users st)"
    if h: "distinct (map user_id (users st))"
          "get_object_or_404 (users st) (\<lambda>x. username x = uname) = Inr user"
  proof -
    let ?code = "uuid3_NAMESPACE_DNS ev uname"
    let ?u = "user\<lparr>confirmation_code := ?code\<rparr>"
    let ?st1 = "send_mail st ''Confirmation code to complete the registration''
                  (''Your code to get a JWT token '' @ ?code) (EMAIL_HOST_USER ev) [email user]"
    from get_object_or_404_Inr [OF h(2)] have
      m: "username user = uname" "user \<in> set (users st)" by simp_all
    have u1: "users ?st1 = users st" by (simp add: send_mail_def)
    have g: "generate_and_send_confirmation_code_to_email ev st uname = Inr (user_save ?st1 ?u)"
      using h(2) by (simp add: generate_and_send_confirmation_code_to_email_def Let_def)
    have q: "get_object_or_404 (users (user_save ?st1 ?u)) (\<lambda>x. username x = uname) = Inr ?u"
      using user_save_get [of ?st1 uname user ?u] h m u1 by simp
    have o: "outbox (user_save ?st1 ?u) = outbox st @
             [\<lparr>subject = ''Confirmation code to complete the registration'',
               message = ''Your code to get a JWT token '' @ ?code,
               from_email = EMAIL_HOST_USER ev, recipient_list = [email user]\<rparr>]"
      by (simp add: user_save_def send_mail_def)
    have s: "users (user_save ?st1 ?u) = users st" if "confirmation_code user = ?code"
    proof -
      from that have "?u = user" by simp
      then show ?thesis using user_save_same [of user ?st1] m(2) h(1) u1 by simp
    qed
    show ?thesis using g q o s by blast
  qed
  show ?thesis using a b by blast
qed

theorem reregistration_rejected_witness:
  "list_ex (\<lambda>x. username x = ''alice'') (users registered_state)
   \<and> data_username signup_alice = Some ''alice''
   \<and> distinct (map user_id (users registered_state))
   \<and> get_object_or_404 (users registered_state) (\<lambda>x. username x = ''alice'') = Inr alice
   \<and> (\<exists>errs ms. EmailRegistrationView_post sample_env registered_state signup_alice =
          Inl (ValidationError (Fields errs)) \<and> (''username'', ms) \<in> set errs)
   \<and> (\<exists>st'. generate_and_send_confirmation_code_to_email sample_env registered_state ''alice'' =
          Inr st'
        \<and> get_object_or_404 (users st') (\<lambda>x. username x = ''alice'') =
            Inr (alice\<lparr>confirmation_code := ''d6d1cd4b-d15a-3b76-9f89-509754f92c74''\<rparr>))"
proof -
  have h: "list_ex (\<lambda>x. username x = ''alice'') (users registered_state)"
    "data_username signup_alice = Some ''alice''"
    "distinct (map user_id (users registered_state))"
    "get_object_or_404 (users registered_state) (\<lambda>x. username x = ''alice'') = Inr alice"
    by (simp_all add: registered_state_def signup_alice_def alice_def get_object_or_404_def
        objects_get_def)
  have c: "uuid3_NAMESPACE_DNS sample_env ''alice'' = ''d6d1cd4b-d15a-3b76-9f89-509754f92c74''"
    by (simp add: sample_env_def)
  show ?thesis
    using h c reregistration_rejected [of "''alice''" registered_state signup_alice sample_env alice]
    by auto
qed

theorem reregistration_counterexample:
  "''alice'' \<in> set (map username (users registered_state))
   \<and> EmailRegistrationView_post sample_env registered_state signup_alice =
     Inl (ValidationError (Fields
       [(''username'', [''A user with this name is already registered'']),
        (''email'', [''This field must be unique.''])]))
   \<and> generate_and_send_confirmation_code_to_email sample_env registered_state ''alice'' =
       Inr coded_state
   \<and> generate_and_send_confirmation_code_to_email sample_env coded_state ''alice'' =
       Inr (coded_state\<lparr>outbox := outbox coded_state @ [code_mail]\<rparr>)"
  by (simp add: EmailRegistrationView_post_def EmailSerializer_errors_def username_field_def
      email_field_def field_errors_def validate_username_def
      generate_and_send_confirmation_code_to_email_def get_object_or_404_def objects_get_def
      send_mail_def user_save_def Let_def coded_state_def code_mail_def
      sample_env_def signup_alice_def registered_state_def alice_def)

text \<open>
  C7. The registration of the username \<^verbatim>\<open>alice\<close> with the address
  \<^verbatim>\<open>alice@example.com\<close> in an empty store creates the user and answers 200, but
  the stored confirmation code is the blank default of the model and the mail that goes
  out carries no code after \<^verbatim>\<open>Your confirmation:\<close>. The reserved username
  \<^verbatim>\<open>me\<close> is rejected with a validation error.
\<close>

theorem signup_stores_blank_code:
  "EmailRegistrationView_post sample_env empty_state signup_alice =
     Inr (registered_state, Response 200 [(''username'', ''alice''), (''email'', ''alice@example.com'')])
   \<and> map confirmation_code (users registered_state) = [[]]
   \<and> map message (outbox registered_state) =
       [[CHR 0x0A] @ ''                Hello!'' @ [CHR 0x0A, CHR 0x0A]
        @ ''                Your confirmation: '' @ [CHR 0x0A] @ ''            '']
   \<and> map recipient_list (outbox registered_state) = [[''alice@example.com'']]
   \<and> EmailRegistrationView_post sample_env empty_state
       \<lparr>data_username = Some ''me'', data_email = Some ''alice@example.com''\<rparr> =
       Inl (ValidationError (Fields [(''username'', [''Username: me is not available''])]))"
  by (simp add: EmailRegistrationView_post_def EmailSerializer_errors_def username_field_def
      email_field_def field_errors_def validate_username_def CustomUser_objects_create_def
      next_pk_def get_object_or_404_def objects_get_def mail_send_def send_mail_def
      sample_env_def empty_state_def signup_alice_def registered_state_def alice_def
      USER_ROLE_USER_def)

section \<open>Own profile: theorems\<close>




section \<open>Token: theorems\<close>

text \<open>
  C10. \<^verbatim>\<open>get_object_or_404\<close> never raises \<^verbatim>\<open>DoesNotExist\<close>: where the query
  raises it, \<^verbatim>\<open>get_object_or_404\<close> raises \<^verbatim>\<open>Http404\<close>. So
  \<^verbatim>\<open>AccessTokenView.post\<close> never answers 400 with the body
  \<^verbatim>\<open>{'email': 'Not found'}\<close>, the handler of \<^verbatim>\<open>DoesNotExist\<close> is not entered,
  and a valid request with an unknown username ends in \<^verbatim>\<open>Http404\<close>.
\<close>

theorem token_not_found_unreachable:
  "get_object_or_404 (users st) p \<noteq> Inl DoesNotExist
   \<and> (objects_get (users st) p = Inl DoesNotExist \<longrightarrow> get_object_or_404 (users st) p = Inl Http404)
   \<and> AccessTokenView_post ev st d \<noteq> Inr (Response 400 [(''email'', ''Not found'')])
   \<and> (token_username d = Some uname \<and> uname \<noteq> [] \<and> token_confirmation_code d = Some code
        \<and> code \<noteq> [] \<and> \<not> list_ex (\<lambda>x. username x = uname) (users st)
      \<longrightarrow> objects_get (users st) (\<lambda>x. username x = uname) = Inl DoesNotExist
          \<and> AccessTokenView_post ev st d = Inl Http404)"
proof -
  have g: "get_object_or_404 (users st) p \<noteq> Inl DoesNotExist"
    by (rule get_object_or_404_not_DoesNotExist)
  have h: "objects_get (users st) p = Inl DoesNotExist \<longrightarrow> get_object_or_404 (users st) p = Inl Http404"
    by (simp add: get_object_or_404_def)
  have a: "AccessTokenView_post ev st d \<noteq> Inr (Response 400 [(''email'', ''Not found'')])"
    using get_object_or_404_not_DoesNotExist [of "users st"]
    by (auto simp: AccessTokenView_post_def split: list.splits option.splits sum.splits)
  have b: "token_username d = Some uname \<and> uname \<noteq> [] \<and> token_confirmation_code d = Some code
        \<and> code \<noteq> [] \<and> \<not> list_ex (\<lambda>x. username x = uname) (users st)
      \<longrightarrow> objects_get (users st) (\<lambda>x. username x = uname) = Inl DoesNotExist
          \<and> AccessTokenView_post ev st d = Inl Http404"
    by (auto simp: AccessTokenView_post_def required_char_def get_object_or_404_none
        objects_get_none)
  show ?thesis using g h a b by blast
qed

theorem token_not_found_unreachable_witness:
  "token_username token_request = Some ''carol'' \<and> ''carol'' \<noteq> []
   \<and> token_confirmation_code token_request = Some ''x'' \<and> ''x'' \<noteq> []
   \<and> \<not> list_ex (\<lambda>x. username x = ''carol'') (users sample_state)
   \<and> objects_get (users sample_state) (\<lambda>x. username x = ''carol'') = Inl DoesNotExist
   \<and> get_object_or_404 (users sample_state) (\<lambda>x. username x = ''carol'') = Inl Http404
   \<and> AccessTokenView_post sample_env sample_state token_request = Inl Http404
   \<and> AccessTokenView_post sample_env coded_state
       \<lparr>token_username = Some ''alice'', token_confirmation_code = Some ''x''\<rparr> =
       Inr (Response 400
         [(''confirmation_code'', ''Invalid confirmationcode for email alice@example.com'')])
   \<and> AccessTokenView_post sample_env coded_state
       \<lparr>token_username = Some ''alice'',
        token_confirmation_code = Some ''d6d1cd4b-d15a-3b76-9f89-509754f92c74''\<rparr> =
       Inr (Response 200 [(''token'', ''token:alice'')])"
proof -
  have c: "AccessTokenView_post sample_env coded_state
       \<lparr>token_username = Some ''alice'', token_confirmation_code = Some ''x''\<rparr> =
       Inr (Response 400
         [(''confirmation_code'', ''Invalid confirmationcode for email alice@example.com'')])"
    "AccessTokenView_post sample_env coded_state
       \<lparr>token_username = Some ''alice'',
        token_confirmation_code = Some ''d6d1cd4b-d15a-3b76-9f89-509754f92c74''\<rparr> =
       Inr (Response 200 [(''token'', ''token:alice'')])"
    by (simp_all add: AccessTokenView_post_def required_char_def get_object_or_404_def
        objects_get_def coded_state_def registered_state_def alice_def sample_env_def)
  show ?thesis
    using c token_not_found_unreachable [where ev = sample_env and st = sample_state
        and d = token_request and uname = "''carol''" and code = "''x''"
        and p = "\<lambda>x. username x = ''carol''"]
    by (simp add: token_request_def sample_state_def alice_def bob_def)
qed

end
